theory Spec2Isabelle
  imports Complex_Main
begin

section \<open>Python values used by the sensor\<close>

text \<open>
  The sensor (\<^verbatim>\<open>sensors/irc_sensor.py\<close>) is glue between three collaborators it does
  not implement: the IRC client library (connection, events, event loop), the host's
  sensor service (logger, dispatch) and the Python runtime (\<^verbatim>\<open>time.time\<close>,
  \<^verbatim>\<open>random.randint\<close>). The model keeps every method of the file as a function. What a
  method asks of a collaborator is recorded as an \<open>action\<close>; what a collaborator answers
  (the clock reading, the generator's output, the connection's nickname) is an argument.
  A string is a list of characters with code points below 256; a raise is a value
  \<open>Inl e\<close>.
\<close>

datatype error =
    KeyError string
  | IndexError
  | ValueError
  | AttributeError string

datatype pyval =
    PStr string
  | PInt int
  | PDict "(string \<times> pyval) list"

text \<open>\<^verbatim>\<open>xs[i]\<close> for a literal index \<open>i \<ge> 0\<close>: IndexError out of range.\<close>

definition getitem :: "'a list \<Rightarrow> nat \<Rightarrow> error + 'a" where
  "getitem xs i = (if i < length xs then Inr (xs ! i) else Inl IndexError)"

text \<open>
  \<^verbatim>\<open>s.split(sep)\<close> for a one-character separator: cuts at every occurrence, keeps empty
  pieces, and always returns at least one piece.
\<close>

fun py_split :: "char \<Rightarrow> string \<Rightarrow> string list" where
  "py_split sep [] = [[]]"
| "py_split sep (c # cs) =
     (if c = sep then [] # py_split sep cs
      else (case py_split sep cs of
              [] \<Rightarrow> [[c]]
            | p # ps \<Rightarrow> (c # p) # ps))"

text \<open>\<^verbatim>\<open>sub in s\<close> on strings: \<open>sub\<close> occurs in \<open>s\<close> as a contiguous piece.\<close>

fun startswith :: "string \<Rightarrow> string \<Rightarrow> bool" where
  "startswith s [] = True"
| "startswith [] (p # ps) = False"
| "startswith (c # cs) (p # ps) = (c = p \<and> startswith cs ps)"

fun py_in :: "string \<Rightarrow> string \<Rightarrow> bool" where
  "py_in sub [] = (sub = [])"
| "py_in sub (c # cs) = (startswith (c # cs) sub \<or> py_in sub cs)"

subsection \<open>Integers and text\<close>

definition is_digit :: "char \<Rightarrow> bool" where
  "is_digit c = (c \<in> set ''0123456789'')"

definition digit_val :: "char \<Rightarrow> nat" where
  "digit_val c = of_char c - 48"

definition digit_char :: "nat \<Rightarrow> char" where
  "digit_char d = ''0123456789'' ! d"

text \<open>
  The blanks \<^verbatim>\<open>int()\<close> drops from both ends of its argument: tab, line feed,
  vertical tab, form feed, carriage return and space, and beyond ASCII the next-line
  character 0x85 and the no-break space 0xA0. The separators 0x1C to 0x1F are not among
  them.
\<close>

definition is_space :: "char \<Rightarrow> bool" where
  "is_space c = (c \<in> set [CHR 0x09, CHR 0x0A, CHR 0x0B, CHR 0x0C, CHR 0x0D, CHR '' '',
                           CHR 0x85, CHR 0xA0])"

definition strip :: "string \<Rightarrow> string" where
  "strip s = rev (dropWhile is_space (rev (dropWhile is_space s)))"

text \<open>
  The digits of a decimal literal, read left to right into an accumulator. Python 3
  allows one underscore between two digits.
\<close>

fun parse_digits :: "nat \<Rightarrow> string \<Rightarrow> error + nat" where
  "parse_digits acc [] = Inr acc"
| "parse_digits acc (c # cs) =
     (if is_digit c then parse_digits (acc * 10 + digit_val c) cs
      else if c = CHR ''_'' then
        (case cs of
           [] \<Rightarrow> Inl ValueError
         | d # ds \<Rightarrow>
             if is_digit d then parse_digits (acc * 10 + digit_val d) ds
             else Inl ValueError)
      else Inl ValueError)"

text \<open>
  The interpreter refuses to convert a literal of more than 4300 digits (the default of
  \<^verbatim>\<open>sys.set_int_max_str_digits\<close>); underscores do not count, leading zeros do.
\<close>

definition max_str_digits :: nat where
  "max_str_digits = 4300"

definition parse_unsigned :: "string \<Rightarrow> error + nat" where
  "parse_unsigned s =
     (case s of
        [] \<Rightarrow> Inl ValueError
      | c # cs \<Rightarrow>
          if \<not> is_digit c then Inl ValueError
          else if length (filter is_digit s) > max_str_digits then Inl ValueError
          else parse_digits 0 s)"

text \<open>
  \<^verbatim>\<open>int(s)\<close> on a string, base 10: surrounding whitespace is dropped, one sign is
  allowed, at least one digit is needed; anything else is a ValueError. (The decimal
  digits of other scripts, which \<^verbatim>\<open>int()\<close> reads as well, all lie beyond code point
  255.)
\<close>

definition py_int :: "string \<Rightarrow> error + int" where
  "py_int s =
     (case strip s of
        [] \<Rightarrow> Inl ValueError
      | c # cs \<Rightarrow>
          if c = CHR ''-'' then
            (case parse_unsigned cs of Inl e \<Rightarrow> Inl e | Inr n \<Rightarrow> Inr (- int n))
          else if c = CHR ''+'' then
            (case parse_unsigned cs of Inl e \<Rightarrow> Inl e | Inr n \<Rightarrow> Inr (int n))
          else
            (case parse_unsigned (c # cs) of Inl e \<Rightarrow> Inl e | Inr n \<Rightarrow> Inr (int n)))"

text \<open>\<^verbatim>\<open>'%s' % n\<close> for an integer \<open>n\<close>: its decimal numeral.\<close>

fun digits :: "nat \<Rightarrow> string" where
  "digits n = (if n < 10 then [digit_char n] else digits (n div 10) @ [digit_char (n mod 10)])"

declare digits.simps [simp del]

definition str_int :: "int \<Rightarrow> string" where
  "str_int i = (if i < 0 then CHR ''-'' # digits (nat (- i)) else digits (nat i))"

text \<open>
  \<^verbatim>\<open>int(x)\<close> on a float: truncation towards zero. The clock reading is a real number
  here; rounding of the float format plays no role in what follows.
\<close>

definition int_of_float :: "real \<Rightarrow> int" where
  "int_of_float x = (if 0 \<le> x then \<lfloor>x\<rfloor> else \<lceil>x\<rceil>)"

section \<open>Events, actions and the sensor's objects\<close>

text \<open>
  An event of the IRC library, with the attributes the sensor reads: \<^verbatim>\<open>type\<close>,
  \<^verbatim>\<open>source\<close> (a nick mask with \<^verbatim>\<open>nick\<close> and \<^verbatim>\<open>host\<close>), \<^verbatim>\<open>target\<close> and
  \<^verbatim>\<open>arguments\<close>. The attribute \<^verbatim>\<open>timestamp\<close> is not the library's: the bot stores
  it on the event object, so it is absent (\<open>None\<close>) until then.
\<close>

record NickMask =
  nick :: string
  host :: string

record Event =
  type :: string
  source :: NickMask
  target :: string
  arguments :: "string list"
  timestamp :: "int option"

text \<open>
  The connection object handed to every callback; \<^verbatim>\<open>get_nickname()\<close> is the one thing
  the sensor reads from it.
\<close>

record Connection =
  get_nickname :: string

text \<open>
  What the sensor asks of its collaborators: \<^verbatim>\<open>connection.join\<close>,
  \<^verbatim>\<open>connection.nick\<close>, \<^verbatim>\<open>sensor_service.dispatch(trigger, payload)\<close>, the logger's
  \<^verbatim>\<open>debug\<close> and \<^verbatim>\<open>error\<close>, and the bot's \<^verbatim>\<open>die()\<close>.
\<close>

datatype action =
    Join string
  | Nick string
  | Dispatch string "(string \<times> pyval) list"
  | LogDebug string
  | LogError string
  | Die

type_synonym handler = "Event \<Rightarrow> error + action list"

text \<open>
  The configuration dictionary, by its four keys; \<open>None\<close> is a missing key.
\<close>

record config =
  server :: "string option"
  nickname :: "string option"
  password :: "string option"
  channels :: "string list option"

text \<open>The attributes \<^verbatim>\<open>self._server_host\<close> ... \<^verbatim>\<open>self._channels\<close> of \<^verbatim>\<open>IRCSensor\<close>.\<close>

record IRCSensor =
  self_server_host :: string
  self_server_port :: int
  self_nickname :: string
  self_password :: "string option"
  self_channels :: "string list"

datatype bot_class = StackStormSensorSimpleBot | StackStormSensorSaslBot

text \<open>
  A bot as its constructor call leaves it: the class, the keyword arguments passed on
  to the library (\<^verbatim>\<open>server_list\<close>, \<^verbatim>\<open>nickname\<close>, \<^verbatim>\<open>realname\<close>, and
  \<^verbatim>\<open>ident_password\<close> for the SASL class only), and the attributes \<^verbatim>\<open>_channels\<close> and
  \<^verbatim>\<open>_handlers\<close> (a dictionary from event kind to callback).
\<close>

record Bot =
  bot_class :: bot_class
  server_list :: "(string \<times> int) list"
  bot_nickname :: string
  realname :: string
  ident_password :: "string option"
  bot_channels :: "string list"
  bot_handlers :: "string \<rightharpoonup> handler"

section \<open>The bot's callbacks\<close>

text \<open>\<^verbatim>\<open>on_welcome\<close>: one debug line, then for each channel a debug line and a join.\<close>

primrec join_channels :: "string list \<Rightarrow> action list" where
  "join_channels [] = []"
| "join_channels (channel # rest) =
     LogDebug (''Joining #'' @ channel @ ''...'') # Join channel # join_channels rest"

definition on_welcome :: "Bot \<Rightarrow> action list" where
  "on_welcome self = LogDebug ''Connected to the server'' # join_channels (bot_channels self)"

text \<open>
  \<^verbatim>\<open>random.randint(a, b)\<close> returns an integer \<open>N\<close> with \<open>a \<le> N \<le> b\<close>, and raises
  ValueError when the range is empty. Which \<open>N\<close> it returns is the generator's
  business: \<open>rng\<close> stands for what the generator produces at the call, and every
  \<open>N\<close> of the range comes from some \<open>rng\<close>.
\<close>

definition randint :: "int \<Rightarrow> int \<Rightarrow> nat \<Rightarrow> error + int" where
  "randint a b rng =
     (if b < a then Inl ValueError else Inr (a + int (rng mod nat (b - a + 1))))"

text \<open>
  \<^verbatim>\<open>on_nicknameinuse\<close>: the connection's nickname, a hyphen and the numeral of
  \<^verbatim>\<open>random.randint(1, 1000)\<close>, sent as the new nickname.
\<close>

definition new_nickname :: "Connection \<Rightarrow> int \<Rightarrow> string" where
  "new_nickname connection n = get_nickname connection @ ''-'' @ str_int n"

definition on_nicknameinuse :: "Connection \<Rightarrow> nat \<Rightarrow> error + action list" where
  "on_nicknameinuse connection rng =
     (case randint 1 1000 rng of
        Inl e \<Rightarrow> Inl e
      | Inr n \<Rightarrow> Inr [Nick (new_nickname connection n)])"

text \<open>
  \<^verbatim>\<open>on_pubmsg\<close>, \<^verbatim>\<open>on_privmsg\<close>, \<^verbatim>\<open>on_join\<close>, \<^verbatim>\<open>on_part\<close>: store
  \<^verbatim>\<open>int(time.time())\<close> on the event, look the callback up with a do-nothing default, call
  it. \<open>time_time\<close> is the clock reading. The result is the event as the callback saw it,
  and what the callback did.
\<close>

definition on_pubmsg :: "Bot \<Rightarrow> real \<Rightarrow> Event \<Rightarrow> Event \<times> (error + action list)" where
  "on_pubmsg self time_time event =
     (let event' = event\<lparr>timestamp := Some (int_of_float time_time)\<rparr>;
          handler = (case bot_handlers self ''pubmsg'' of
                       None \<Rightarrow> (\<lambda>event. Inr [])
                     | Some h \<Rightarrow> h)
      in (event', handler event'))"

definition on_privmsg :: "Bot \<Rightarrow> real \<Rightarrow> Event \<Rightarrow> Event \<times> (error + action list)" where
  "on_privmsg self time_time event =
     (let event' = event\<lparr>timestamp := Some (int_of_float time_time)\<rparr>;
          handler = (case bot_handlers self ''privmsg'' of
                       None \<Rightarrow> (\<lambda>event. Inr [])
                     | Some h \<Rightarrow> h)
      in (event', handler event'))"

definition on_join :: "Bot \<Rightarrow> real \<Rightarrow> Event \<Rightarrow> Event \<times> (error + action list)" where
  "on_join self time_time event =
     (let event' = event\<lparr>timestamp := Some (int_of_float time_time)\<rparr>;
          handler = (case bot_handlers self ''join'' of
                       None \<Rightarrow> (\<lambda>event. Inr [])
                     | Some h \<Rightarrow> h)
      in (event', handler event'))"

definition on_part :: "Bot \<Rightarrow> real \<Rightarrow> Event \<Rightarrow> Event \<times> (error + action list)" where
  "on_part self time_time event =
     (let event' = event\<lparr>timestamp := Some (int_of_float time_time)\<rparr>;
          handler = (case bot_handlers self ''part'' of
                       None \<Rightarrow> (\<lambda>event. Inr [])
                     | Some h \<Rightarrow> h)
      in (event', handler event'))"

text \<open>\<^verbatim>\<open>StackStormSensorSimpleBot.on_error\<close>.\<close>

definition on_error :: "Event \<Rightarrow> action list" where
  "on_error event =
     (if py_in ''SASL access only'' (target event) then
        [LogError (''This server requires SASL authentication only. '' @
                   ''Please register and specify both nickname:password in config file.''),
         Die]
      else [])"

text \<open>\<^verbatim>\<open>StackStormSensorSaslBot.on_sasl_failed\<close>.\<close>

definition on_sasl_failed :: "Event \<Rightarrow> action list" where
  "on_sasl_failed event =
     [LogError (''SASL authentication failed! Please use correct username:password.'' @
                ''Additionally, make sure you registered your nickname at IRC server.''),
      Die]"

section \<open>The sensor\<close>

text \<open>
  \<^verbatim>\<open>IRCSensor.__init__\<close>, in the order the statements run: the first one that raises
  decides the error.
\<close>

definition IRCSensor_init :: "config \<Rightarrow> error + IRCSensor" where
  "IRCSensor_init cfg =
     (case server cfg of
        None \<Rightarrow> Inl (KeyError ''server'')
      | Some srv \<Rightarrow>
          let split = py_split CHR '':'' srv in
          (case getitem split 0 of
             Inl e \<Rightarrow> Inl e
           | Inr h \<Rightarrow>
               (case getitem split 1 of
                  Inl e \<Rightarrow> Inl e
                | Inr p \<Rightarrow>
                    (case py_int p of
                       Inl e \<Rightarrow> Inl e
                     | Inr port \<Rightarrow>
                         (case nickname cfg of
                            None \<Rightarrow> Inl (KeyError ''nickname'')
                          | Some n \<Rightarrow>
                              (case channels cfg of
                                 None \<Rightarrow> Inl (KeyError ''channels'')
                               | Some chs \<Rightarrow>
                                   Inr \<lparr>self_server_host = h,
                                        self_server_port = port,
                                        self_nickname = n,
                                        self_password = password cfg,
                                        self_channels = chs\<rparr>))))))"

text \<open>The four payload builders; each ends in one call of \<^verbatim>\<open>dispatch\<close>.\<close>

definition event_source :: "Event \<Rightarrow> pyval" where
  "event_source event =
     PDict [(''nick'', PStr (nick (source event))), (''host'', PStr (host (source event)))]"

definition handle_pubmsg :: handler where
  "handle_pubmsg event =
     (case timestamp event of
        None \<Rightarrow> Inl (AttributeError ''timestamp'')
      | Some ts \<Rightarrow>
          (case getitem (arguments event) 0 of
             Inl e \<Rightarrow> Inl e
           | Inr message \<Rightarrow>
               Inr [Dispatch ''irc.pubmsg''
                      [(''source'', event_source event),
                       (''channel'', PStr (target event)),
                       (''timestamp'', PInt ts),
                       (''message'', PStr message)]]))"

definition handle_privmsg :: handler where
  "handle_privmsg event =
     (case timestamp event of
        None \<Rightarrow> Inl (AttributeError ''timestamp'')
      | Some ts \<Rightarrow>
          (case getitem (arguments event) 0 of
             Inl e \<Rightarrow> Inl e
           | Inr message \<Rightarrow>
               Inr [Dispatch ''irc.privmsg''
                      [(''source'', event_source event),
                       (''timestamp'', PInt ts),
                       (''message'', PStr message)]]))"

definition handle_join :: handler where
  "handle_join event =
     (case timestamp event of
        None \<Rightarrow> Inl (AttributeError ''timestamp'')
      | Some ts \<Rightarrow>
          Inr [Dispatch ''irc.join''
                 [(''source'', event_source event),
                  (''timestamp'', PInt ts),
                  (''channel'', PStr (target event))]])"

definition handle_part :: handler where
  "handle_part event =
     (case timestamp event of
        None \<Rightarrow> Inl (AttributeError ''timestamp'')
      | Some ts \<Rightarrow>
          Inr [Dispatch ''irc.part''
                 [(''source'', event_source event),
                  (''timestamp'', PInt ts),
                  (''channel'', PStr (target event))]])"

text \<open>
  \<^verbatim>\<open>IRCSensor.setup\<close>. \<^verbatim>\<open>if self._password:\<close> is Python's truth test: \<open>None\<close> and the
  empty string are false.
\<close>

definition sensor_handlers :: "string \<rightharpoonup> handler" where
  "sensor_handlers =
     [''pubmsg'' \<mapsto> handle_pubmsg,
      ''privmsg'' \<mapsto> handle_privmsg,
      ''join'' \<mapsto> handle_join,
      ''part'' \<mapsto> handle_part]"

definition truthy :: "string option \<Rightarrow> bool" where
  "truthy v = (case v of None \<Rightarrow> False | Some s \<Rightarrow> s \<noteq> [])"

definition IRCSensor_setup :: "IRCSensor \<Rightarrow> Bot" where
  "IRCSensor_setup self =
     (let handlers = sensor_handlers in
      if truthy (self_password self) then
        \<lparr>bot_class = StackStormSensorSaslBot,
         server_list = [(self_server_host self, self_server_port self)],
         bot_nickname = self_nickname self,
         realname = self_nickname self,
         ident_password = self_password self,
         bot_channels = self_channels self,
         bot_handlers = handlers\<rparr>
      else
        \<lparr>bot_class = StackStormSensorSimpleBot,
         server_list = [(self_server_host self, self_server_port self)],
         bot_nickname = self_nickname self,
         realname = self_nickname self,
         ident_password = None,
         bot_channels = self_channels self,
         bot_handlers = handlers\<rparr>)"

section \<open>A session: the library's event loop over the callbacks\<close>

text \<open>
  The library calls the method \<^verbatim>\<open>on_<type>\<close> of the bot for an event of that type,
  when the class has one, and the callbacks added with \<^verbatim>\<open>add_global_handler\<close>. The base
  class gives both bots \<^verbatim>\<open>on_welcome\<close>, \<^verbatim>\<open>on_nicknameinuse\<close> and the four message
  callbacks; \<^verbatim>\<open>on_error\<close> is a method of the simple bot only, and only the SASL bot's
  constructor adds \<^verbatim>\<open>on_sasl_failed\<close>, under the key \<^verbatim>\<open>'904'\<close>. The callbacks of the
  library and of its mixins are not part of the sensor and not modelled.
\<close>

definition dispatch_event ::
  "Bot \<Rightarrow> Connection \<Rightarrow> real \<Rightarrow> nat \<Rightarrow> Event \<Rightarrow> error + action list" where
  "dispatch_event self connection time_time rng event =
     (if type event = ''welcome'' then Inr (on_welcome self)
      else if type event = ''nicknameinuse'' then on_nicknameinuse connection rng
      else if type event = ''pubmsg'' then snd (on_pubmsg self time_time event)
      else if type event = ''privmsg'' then snd (on_privmsg self time_time event)
      else if type event = ''join'' then snd (on_join self time_time event)
      else if type event = ''part'' then snd (on_part self time_time event)
      else if type event = ''error'' \<and> bot_class self = StackStormSensorSimpleBot
        then Inr (on_error event)
      else if type event = ''904'' \<and> bot_class self = StackStormSensorSaslBot
        then Inr (on_sasl_failed event)
      else Inr [])"

text \<open>
  \<^verbatim>\<open>die()\<close> disconnects and leaves through \<^verbatim>\<open>sys.exit\<close>: nothing after it runs, in
  the callback or in the loop. An exception of a callback leaves the loop as well.
\<close>

datatype outcome = Running | Terminated | Raised error

primrec until_die :: "action list \<Rightarrow> action list" where
  "until_die [] = []"
| "until_die (a # as) = (if a = Die then [Die] else a # until_die as)"

text \<open>
  One step of input is an event together with what the collaborators answer while it is
  handled: the connection, the clock reading and the generator's output.
\<close>

type_synonym input = "Connection \<times> real \<times> nat \<times> Event"

fun run :: "Bot \<Rightarrow> input list \<Rightarrow> action list \<times> outcome" where
  "run self [] = ([], Running)"
| "run self ((connection, time_time, rng, event) # rest) =
     (case dispatch_event self connection time_time rng event of
        Inl e \<Rightarrow> ([], Raised e)
      | Inr acts \<Rightarrow>
          if Die \<in> set acts then (until_die acts, Terminated)
          else (case run self rest of (later, out) \<Rightarrow> (acts @ later, out)))"

text \<open>The channels joined and the nicknames requested in a trace, in order.\<close>

fun joins :: "action list \<Rightarrow> string list" where
  "joins [] = []"
| "joins (Join channel # as) = channel # joins as"
| "joins (a # as) = joins as"

fun nick_requests :: "action list \<Rightarrow> string list" where
  "nick_requests [] = []"
| "nick_requests (Nick n # as) = n # nick_requests as"
| "nick_requests (a # as) = nick_requests as"

section \<open>Notions of the specification\<close>

text \<open>
  The specification's fatal authentication errors: the numeric reply 904, or a server
  error whose text contains "SASL access only".
\<close>

definition fatal_auth_error :: "Event \<Rightarrow> bool" where
  "fatal_auth_error event =
     (type event = ''904'' \<or>
      (type event = ''error'' \<and> py_in ''SASL access only'' (target event)))"

text \<open>
  The specification's well-formed server string, "host:port with an integer port", read
  generously: some colon of the string is followed by an integer literal up to the end.
\<close>

definition port_after :: "string \<Rightarrow> nat \<Rightarrow> bool" where
  "port_after s i = (s ! i = CHR '':'' \<and> \<not> isl (py_int (drop (Suc i) s)))"

definition host_port_form :: "string \<Rightarrow> bool" where
  "host_port_form s = list_ex (port_after s) [0..<length s]"

text \<open>The text between the first colon and the second one (or the end).\<close>

definition port_text :: "string \<Rightarrow> string" where
  "port_text s = takeWhile (\<lambda>c. c \<noteq> CHR '':'') (tl (dropWhile (\<lambda>c. c \<noteq> CHR '':'') s))"

section \<open>The scenarios of the specification\<close>

text \<open>
  The configuration of the specification's welcome scenario (no password), the sensor it
  initialises, the same with a password, and the event of the public-message scenario:
  alice says "deploy v2" in \<^verbatim>\<open>#ops\<close>.
\<close>

definition example_config :: config where
  "example_config =
     \<lparr>server = Some ''irc.example.org:6697'',
      nickname = Some ''bot1'',
      password = None,
      channels = Some [''#ops'']\<rparr>"

definition example_sensor :: IRCSensor where
  "example_sensor =
     \<lparr>self_server_host = ''irc.example.org'',
      self_server_port = 6697,
      self_nickname = ''bot1'',
      self_password = None,
      self_channels = [''#ops'']\<rparr>"

definition example_event :: "string \<Rightarrow> Event" where
  "example_event kind =
     \<lparr>type = kind,
      source = \<lparr>nick = ''alice'', host = ''alice@host''\<rparr>,
      target = ''#ops'',
      arguments = [''deploy v2''],
      timestamp = None\<rparr>"

definition example_connection :: Connection where
  "example_connection = \<lparr>get_nickname = ''bot1''\<rparr>"

section \<open>Facts about the Python primitives\<close>

lemma digit_char_props: "d < 10 \<Longrightarrow> digit_val (digit_char d) = d \<and> is_digit (digit_char d)"
proof -
  assume "d < 10"
  then have "d \<in> {0, 1, 2, 3, 4, 5, 6, 7, 8, 9}" by auto
  then show ?thesis by (auto simp: digit_val_def digit_char_def is_digit_def)
qed

lemma is_digit_plain:
  "is_digit c \<Longrightarrow> \<not> is_space c \<and> c \<noteq> CHR ''_'' \<and> c \<noteq> CHR ''-'' \<and> c \<noteq> CHR ''+''"
  by (auto simp: is_digit_def is_space_def)

lemma digits_all: "list_all is_digit (digits n)"
proof (induction n rule: digits.induct)
  case (1 n)
  show ?case
  proof (cases "n < 10")
    case True
    then show ?thesis by (subst digits.simps) (simp add: digit_char_props)
  next
    case False
    with 1 have "list_all is_digit (digits (n div 10))" by simp
    moreover have "is_digit (digit_char (n mod 10))" by (simp add: digit_char_props)
    ultimately show ?thesis using False by (subst digits.simps) simp
  qed
qed

lemma digits_nonempty: "digits n \<noteq> []"
  by (subst digits.simps) simp

lemma parse_digits_plain:
  "list_all is_digit ds \<Longrightarrow>
   parse_digits acc ds = Inr (foldl (\<lambda>a c. a * 10 + digit_val c) acc ds)"
  by (induction ds arbitrary: acc) simp_all

lemma digits_value: "foldl (\<lambda>a c. a * 10 + digit_val c) 0 (digits n) = n"
proof (induction n rule: digits.induct)
  case (1 n)
  show ?case
  proof (cases "n < 10")
    case True
    then show ?thesis by (subst digits.simps) (simp add: digit_char_props)
  next
    case False
    with 1 have "foldl (\<lambda>a c. a * 10 + digit_val c) 0 (digits (n div 10)) = n div 10" by simp
    then show ?thesis using False by (subst digits.simps) (simp add: digit_char_props)
  qed
qed

lemma digits_length: "n < 10000 \<Longrightarrow> length (digits n) \<le> 4"
  apply (subst digits.simps)
  apply (subst digits.simps)
  apply (subst digits.simps)
  apply (subst digits.simps)
  apply simp
  done

lemma parse_unsigned_digits:
  "length (digits n) \<le> max_str_digits \<Longrightarrow> parse_unsigned (digits n) = Inr n"
proof -
  assume short: "length (digits n) \<le> max_str_digits"
  obtain c cs where cs: "digits n = c # cs" using digits_nonempty by (cases "digits n") auto
  have all: "list_all is_digit (digits n)" by (rule digits_all)
  then have first: "is_digit c" using cs by simp
  have "filter is_digit (digits n) = digits n"
    using all by (simp add: list_all_iff)
  then have "\<not> length (filter is_digit (digits n)) > max_str_digits"
    using short by simp
  then have "parse_unsigned (digits n) = parse_digits 0 (digits n)"
    using cs first by (simp add: parse_unsigned_def)
  also have "\<dots> = Inr n" using parse_digits_plain [OF all, of 0] by (simp add: digits_value)
  finally show ?thesis .
qed

lemma dropWhile_none: "\<forall>c \<in> set xs. \<not> P c \<Longrightarrow> dropWhile P xs = xs"
  by (cases xs) auto

lemma strip_no_space: "\<forall>c \<in> set s. \<not> is_space c \<Longrightarrow> strip s = s"
  by (simp add: strip_def dropWhile_none)

lemma digits_no_space: "\<forall>c \<in> set (digits n). \<not> is_space c"
  using digits_all [of n] is_digit_plain by (auto simp: list_all_iff)

text \<open>Reading back the decimal numeral of an integer of up to four digits gives it.\<close>

lemma py_int_str_int: "\<bar>i\<bar> < 10000 \<Longrightarrow> py_int (str_int i) = Inr i"
proof (cases "i < 0")
  case True
  assume small: "\<bar>i\<bar> < 10000"
  then have "nat (- i) < 10000" using True by simp
  then have "length (digits (nat (- i))) \<le> 4" by (rule digits_length)
  then have "length (digits (nat (- i))) \<le> max_str_digits"
    by (simp add: max_str_digits_def)
  then have parsed: "parse_unsigned (digits (nat (- i))) = Inr (nat (- i))"
    by (rule parse_unsigned_digits)
  have "\<not> is_space CHR ''-''" by (simp add: is_space_def)
  then have "strip (CHR ''-'' # digits (nat (- i))) = CHR ''-'' # digits (nat (- i))"
    using digits_no_space by (intro strip_no_space) auto
  then show ?thesis using True parsed by (simp add: py_int_def str_int_def)
next
  case False
  assume small: "\<bar>i\<bar> < 10000"
  then have "nat i < 10000" using False by simp
  then have "length (digits (nat i)) \<le> 4" by (rule digits_length)
  then have "length (digits (nat i)) \<le> max_str_digits"
    by (simp add: max_str_digits_def)
  then have parsed: "parse_unsigned (digits (nat i)) = Inr (nat i)"
    by (rule parse_unsigned_digits)
  obtain c cs where cs: "digits (nat i) = c # cs"
    using digits_nonempty by (cases "digits (nat i)") auto
  have "is_digit c" using digits_all [of "nat i"] cs by simp
  then have c: "c \<noteq> CHR ''-''" "c \<noteq> CHR ''+''" using is_digit_plain by auto
  have "strip (digits (nat i)) = digits (nat i)" by (rule strip_no_space [OF digits_no_space])
  then have "py_int (digits (nat i)) = Inr (int (nat i))"
    using cs c parsed by (simp add: py_int_def)
  then show ?thesis using False by (simp add: str_int_def)
qed

text \<open>
  The edges of \<^verbatim>\<open>int()\<close>: a separator 0x1F is no blank, the no-break space and the
  next-line character are; an underscore may stand between two digits; a literal of
  4301 digits is refused.
\<close>

lemma py_int_edges:
  "py_int [CHR 0x1F, CHR ''7''] = Inl ValueError"
  "py_int [CHR ''7'', CHR 0x1C] = Inl ValueError"
  "py_int [CHR 0xA0, CHR ''7''] = Inr 7"
  "py_int [CHR ''7'', CHR 0x85] = Inr 7"
  "py_int '' +6_697 '' = Inr 6697"
  "py_int ''6__697'' = Inl ValueError"
  "py_int ''- 7'' = Inl ValueError"
  by (simp_all add: py_int_def strip_def is_space_def parse_unsigned_def max_str_digits_def
      is_digit_def digit_val_def)

lemma py_int_digit_limit: "py_int (replicate 4301 CHR ''1'') = Inl ValueError"
proof -
  have ones: "replicate 4301 CHR ''1'' = CHR ''1'' # replicate 4300 CHR ''1''"
    by (simp add: replicate_Suc [symmetric] del: replicate_Suc)
  have "\<forall>c \<in> set (replicate 4301 CHR ''1''). \<not> is_space c"
    by (simp add: is_space_def)
  then have "strip (replicate 4301 CHR ''1'') = replicate 4301 CHR ''1''"
    by (rule strip_no_space)
  moreover have "is_digit CHR ''1''" by (simp add: is_digit_def)
  then have "length (filter is_digit (replicate 4301 CHR ''1'')) = 4301"
    by simp
  then have "parse_unsigned (replicate 4301 CHR ''1'') = Inl ValueError"
    unfolding ones parse_unsigned_def by (simp add: max_str_digits_def)
  ultimately show ?thesis unfolding py_int_def ones by simp
qed

text \<open>Different integers have different numerals.\<close>

lemma digits_inj: "digits a = digits b \<Longrightarrow> a = b"
proof -
  assume eq: "digits a = digits b"
  have "a = foldl (\<lambda>a c. a * 10 + digit_val c) 0 (digits a)"
    by (rule digits_value [symmetric])
  also have "\<dots> = foldl (\<lambda>a c. a * 10 + digit_val c) 0 (digits b)"
    by (simp only: eq)
  also have "\<dots> = b" by (rule digits_value)
  finally show ?thesis .
qed

lemma str_int_inj: "str_int a = str_int b \<Longrightarrow> a = b"
proof -
  assume eq: "str_int a = str_int b"
  have no_minus: "digits n \<noteq> CHR ''-'' # s" for n s
  proof
    assume "digits n = CHR ''-'' # s"
    then have "is_digit CHR ''-''" using digits_all [of n] by simp
    then show False by (simp add: is_digit_def)
  qed
  show ?thesis
  proof (cases "a < 0")
    case True
    show ?thesis
    proof (cases "b < 0")
      case b: True
      then have "digits (nat (- a)) = digits (nat (- b))"
        using eq True by (simp add: str_int_def)
      then have "nat (- a) = nat (- b)" by (rule digits_inj)
      then show ?thesis using True b by simp
    next
      case False
      then show ?thesis using eq True no_minus [of "nat b" "digits (nat (- a))"]
        by (simp add: str_int_def)
    qed
  next
    case False
    show ?thesis
    proof (cases "b < 0")
      case True
      then show ?thesis using eq False no_minus [of "nat a" "digits (nat (- b))"]
        by (simp add: str_int_def)
    next
      case b: False
      then have "digits (nat a) = digits (nat b)"
        using eq False by (simp add: str_int_def)
      then have "nat a = nat b" by (rule digits_inj)
      then show ?thesis using False b by simp
    qed
  qed
qed

text \<open>What \<^verbatim>\<open>random.randint(1, 1000)\<close> can return: every integer from 1 to 1000, no other.\<close>

lemma randint_range: "\<exists>n. randint 1 1000 rng = Inr n \<and> 1 \<le> n \<and> n \<le> 1000"
proof -
  have "rng mod 1000 < 1000" by simp
  then show ?thesis by (simp add: randint_def)
qed

lemma randint_onto: "1 \<le> n \<Longrightarrow> n \<le> 1000 \<Longrightarrow> randint 1 1000 (nat (n - 1)) = Inr n"
  by (simp add: randint_def)

section \<open>Facts about the sensor\<close>

lemma example_init: "IRCSensor_init example_config = Inr example_sensor"
  by (simp add: IRCSensor_init_def example_config_def example_sensor_def getitem_def
      py_int_def strip_def is_space_def parse_unsigned_def max_str_digits_def is_digit_def
      digit_val_def)

lemma init_fields:
  "IRCSensor_init cfg = Inr sensor \<Longrightarrow>
   nickname cfg = Some (self_nickname sensor) \<and> channels cfg = Some (self_channels sensor) \<and>
   self_password sensor = password cfg"
  by (auto simp: IRCSensor_init_def Let_def split: option.splits sum.splits)

lemma joins_join_channels: "joins (join_channels chs) = chs"
  by (induction chs) simp_all

lemma sensor_handlers_lookup:
  "sensor_handlers ''pubmsg'' = Some handle_pubmsg"
  "sensor_handlers ''privmsg'' = Some handle_privmsg"
  "sensor_handlers ''join'' = Some handle_join"
  "sensor_handlers ''part'' = Some handle_part"
  by (simp_all add: sensor_handlers_def)

lemma setup_handlers: "bot_handlers (IRCSensor_setup sensor) = sensor_handlers"
  by (simp add: IRCSensor_setup_def Let_def)

lemma setup_channels: "bot_channels (IRCSensor_setup sensor) = self_channels sensor"
  by (simp add: IRCSensor_setup_def Let_def)

text \<open>
  The message callbacks index the first argument: for an event object without
  arguments they raise and nothing is dispatched. The IRC library builds pubmsg and
  privmsg events with the message as their one argument.
\<close>

lemma message_needs_argument:
  "arguments event = [] \<Longrightarrow> type event = ''pubmsg'' \<or> type event = ''privmsg'' \<Longrightarrow>
   dispatch_event (IRCSensor_setup sensor) connection time_time rng event = Inl IndexError"
  by (auto simp: dispatch_event_def on_pubmsg_def on_privmsg_def setup_handlers
      sensor_handlers_lookup handle_pubmsg_def handle_privmsg_def getitem_def Let_def)

section \<open>The claims\<close>

text \<open>
  C1. For an event of kind pubmsg, privmsg, join or part, the bot that
  \<^verbatim>\<open>setup()\<close> builds hands the sensor service exactly one payload, under the trigger
  name of the kind, and the payload is the dictionary of the table of section 4.2 with
  no other key: source (nick and host of the event's source), channel (the event's
  target; not for privmsg), timestamp (the integer stored at receipt), message (the
  event's first argument; pubmsg and privmsg only). A pubmsg or privmsg event is taken
  with its message, the first argument, as the IRC library delivers it.
\<close>

theorem payload_fields:
  "(type event = ''pubmsg'' \<and> arguments event = message # others \<longrightarrow>
      dispatch_event (IRCSensor_setup sensor) connection time_time rng event =
        Inr [Dispatch ''irc.pubmsg''
               [(''source'', PDict [(''nick'', PStr (nick (source event))),
                                    (''host'', PStr (host (source event)))]),
                (''channel'', PStr (target event)),
                (''timestamp'', PInt (int_of_float time_time)),
                (''message'', PStr message)]]) \<and>
   (type event = ''privmsg'' \<and> arguments event = message # others \<longrightarrow>
      dispatch_event (IRCSensor_setup sensor) connection time_time rng event =
        Inr [Dispatch ''irc.privmsg''
               [(''source'', PDict [(''nick'', PStr (nick (source event))),
                                    (''host'', PStr (host (source event)))]),
                (''timestamp'', PInt (int_of_float time_time)),
                (''message'', PStr message)]]) \<and>
   (type event = ''join'' \<longrightarrow>
      dispatch_event (IRCSensor_setup sensor) connection time_time rng event =
        Inr [Dispatch ''irc.join''
               [(''source'', PDict [(''nick'', PStr (nick (source event))),
                                    (''host'', PStr (host (source event)))]),
                (''timestamp'', PInt (int_of_float time_time)),
                (''channel'', PStr (target event))]]) \<and>
   (type event = ''part'' \<longrightarrow>
      dispatch_event (IRCSensor_setup sensor) connection time_time rng event =
        Inr [Dispatch ''irc.part''
               [(''source'', PDict [(''nick'', PStr (nick (source event))),
                                    (''host'', PStr (host (source event)))]),
                (''timestamp'', PInt (int_of_float time_time)),
                (''channel'', PStr (target event))]])"
  by (simp add: dispatch_event_def on_pubmsg_def on_privmsg_def on_join_def on_part_def
      setup_handlers sensor_handlers_lookup handle_pubmsg_def handle_privmsg_def
      handle_join_def handle_part_def event_source_def getitem_def Let_def)

text \<open>
  The specification's scenario: alice (host alice@host) says "deploy v2" in \<^verbatim>\<open>#ops\<close>,
  received when the clock reads 1700000000.
\<close>

theorem payload_fields_witness:
  "type (example_event ''pubmsg'') = ''pubmsg'' \<and>
   arguments (example_event ''pubmsg'') = [''deploy v2''] \<and>
   dispatch_event (IRCSensor_setup example_sensor) example_connection 1700000000 1
       (example_event ''pubmsg'') =
     Inr [Dispatch ''irc.pubmsg''
            [(''source'', PDict [(''nick'', PStr ''alice''), (''host'', PStr ''alice@host'')]),
             (''channel'', PStr ''#ops''),
             (''timestamp'', PInt 1700000000),
             (''message'', PStr ''deploy v2'')]]"
  using payload_fields [of "example_event ''pubmsg''" "''deploy v2''" "[]" example_sensor
      example_connection 1700000000 1]
  by (simp add: example_event_def int_of_float_def)

text \<open>
  C2. \<^verbatim>\<open>setup()\<close> builds the SASL bot exactly when the configuration has a password
  that is not empty, and the simple (unauthenticated) bot exactly when the password is
  missing or empty.
\<close>

theorem sasl_iff_password:
  "IRCSensor_init cfg = Inr sensor \<Longrightarrow>
   (bot_class (IRCSensor_setup sensor) = StackStormSensorSaslBot \<longleftrightarrow>
      (\<exists>p. password cfg = Some p \<and> p \<noteq> [])) \<and>
   (bot_class (IRCSensor_setup sensor) = StackStormSensorSimpleBot \<longleftrightarrow>
      (password cfg = None \<or> password cfg = Some []))"
  using init_fields [of cfg sensor]
  by (cases "password cfg") (auto simp: IRCSensor_setup_def Let_def truthy_def)

theorem sasl_iff_password_witness:
  "IRCSensor_init example_config = Inr example_sensor \<and>
   password example_config = None \<and>
   bot_class (IRCSensor_setup example_sensor) = StackStormSensorSimpleBot \<and>
   IRCSensor_init (example_config\<lparr>password := Some ''secret''\<rparr>) =
     Inr (example_sensor\<lparr>self_password := Some ''secret''\<rparr>) \<and>
   bot_class (IRCSensor_setup (example_sensor\<lparr>self_password := Some ''secret''\<rparr>)) =
     StackStormSensorSaslBot"
proof -
  have secret: "IRCSensor_init (example_config\<lparr>password := Some ''secret''\<rparr>) =
      Inr (example_sensor\<lparr>self_password := Some ''secret''\<rparr>)"
    by (simp add: IRCSensor_init_def example_config_def example_sensor_def getitem_def
        py_int_def strip_def is_space_def parse_unsigned_def max_str_digits_def is_digit_def
      digit_val_def)
  show ?thesis
    using sasl_iff_password [OF example_init] sasl_iff_password [OF secret] example_init secret
    by (simp add: example_config_def)
qed

text \<open>
  C5. When the nickname is reported in use, the bot asks for the connection's current
  nickname followed by a hyphen and the decimal numeral of what
  \<^verbatim>\<open>random.randint(1, 1000)\<close> returns. Whatever the generator produces, that is an integer
  from 1 to 1000, written with one to four digits that read back as that integer; and
  every integer from 1 to 1000, both ends included, can come out.
\<close>

theorem nickname_in_use:
  "type event = ''nicknameinuse'' \<Longrightarrow>
   (\<exists>n. 1 \<le> n \<and> n \<le> 1000 \<and>
      dispatch_event self connection time_time rng event =
        Inr [Nick (get_nickname connection @ ''-'' @ str_int n)] \<and>
      py_int (str_int n) = Inr n \<and>
      list_all is_digit (str_int n) \<and>
      length (str_int n) \<le> 4) \<and>
   (\<forall>n. 1 \<le> n \<and> n \<le> 1000 \<longrightarrow>
      dispatch_event self connection time_time (nat (n - 1)) event =
        Inr [Nick (get_nickname connection @ ''-'' @ str_int n)])"
proof -
  assume kind: "type event = ''nicknameinuse''"
  obtain n where drawn: "randint 1 1000 rng = Inr n" and range: "1 \<le> n" "n \<le> 1000"
    using randint_range [of rng] by blast
  have suffix: "str_int n = digits (nat n)"
    using range by (simp add: str_int_def)
  have "nat n < 10000" using range by simp
  then have short: "length (digits (nat n)) \<le> 4" by (rule digits_length)
  have "\<bar>n\<bar> < 10000" using range by simp
  then have reads_back: "py_int (str_int n) = Inr n" by (rule py_int_str_int)
  have request: "dispatch_event self connection time_time rng event =
      Inr [Nick (get_nickname connection @ ''-'' @ str_int n)]"
    using kind drawn by (simp add: dispatch_event_def on_nicknameinuse_def new_nickname_def)
  have first: "\<exists>n. 1 \<le> n \<and> n \<le> 1000 \<and>
      dispatch_event self connection time_time rng event =
        Inr [Nick (get_nickname connection @ ''-'' @ str_int n)] \<and>
      py_int (str_int n) = Inr n \<and>
      list_all is_digit (str_int n) \<and>
      length (str_int n) \<le> 4"
    using range request reads_back short suffix digits_all [of "nat n"] by auto
  have every: "\<forall>n. 1 \<le> n \<and> n \<le> 1000 \<longrightarrow>
      dispatch_event self connection time_time (nat (n - 1)) event =
        Inr [Nick (get_nickname connection @ ''-'' @ str_int n)]"
    using kind randint_onto
    by (simp add: dispatch_event_def on_nicknameinuse_def new_nickname_def)
  show ?thesis using first every by (rule conjI)
qed

theorem nickname_in_use_witness:
  "type (example_event ''nicknameinuse'') = ''nicknameinuse'' \<and>
   dispatch_event (IRCSensor_setup example_sensor) example_connection 0 999
       (example_event ''nicknameinuse'') = Inr [Nick ''bot1-1000''] \<and>
   dispatch_event (IRCSensor_setup example_sensor) example_connection 0 0
       (example_event ''nicknameinuse'') = Inr [Nick ''bot1-1'']"
proof -
  have kind: "type (example_event ''nicknameinuse'') = ''nicknameinuse''"
    by (simp add: example_event_def)
  have numerals: "str_int 1000 = ''1000''" "str_int 1 = ''1''"
    by (simp_all add: str_int_def digits.simps digit_char_def)
  have every: "\<forall>n. 1 \<le> n \<and> n \<le> 1000 \<longrightarrow>
      dispatch_event (IRCSensor_setup example_sensor) example_connection 0 (nat (n - 1))
          (example_event ''nicknameinuse'') =
        Inr [Nick (get_nickname example_connection @ ''-'' @ str_int n)]"
    using nickname_in_use [OF kind, of "IRCSensor_setup example_sensor" example_connection 0 0]
    by (rule conjunct2)
  have "dispatch_event (IRCSensor_setup example_sensor) example_connection 0 (nat (1000 - 1))
      (example_event ''nicknameinuse'') =
        Inr [Nick (get_nickname example_connection @ ''-'' @ str_int 1000)]"
    using spec [OF every, of 1000] by simp
  moreover have "dispatch_event (IRCSensor_setup example_sensor) example_connection 0
      (nat (1 - 1)) (example_event ''nicknameinuse'') =
        Inr [Nick (get_nickname example_connection @ ''-'' @ str_int 1)]"
    using spec [OF every, of 1] by simp
  ultimately show ?thesis
    using kind numerals by (simp add: example_connection_def)
qed

text \<open>
  C7. On the welcome event the bot asks to join every channel of the configured list,
  once each and in the order of the list.
\<close>

theorem welcome_joins_channels:
  "IRCSensor_init cfg = Inr sensor \<Longrightarrow> type event = ''welcome'' \<Longrightarrow>
   (\<exists>acts. dispatch_event (IRCSensor_setup sensor) connection time_time rng event = Inr acts \<and>
           channels cfg = Some (joins acts))"
  using init_fields [of cfg sensor]
  by (simp add: dispatch_event_def on_welcome_def setup_channels joins_join_channels)

theorem welcome_joins_channels_witness:
  "IRCSensor_init example_config = Inr example_sensor \<and>
   channels example_config = Some [''#ops''] \<and>
   dispatch_event (IRCSensor_setup example_sensor) example_connection 0 1
       (example_event ''welcome'') =
     Inr [LogDebug ''Connected to the server'', LogDebug ''Joining ##ops...'', Join ''#ops'']"
  using welcome_joins_channels [OF example_init, of "example_event ''welcome''"
      example_connection 0 1] example_init
  by (simp add: example_event_def example_config_def dispatch_event_def on_welcome_def
      setup_channels example_sensor_def)




text \<open>
  C10. In both modes the bot is built with a realname equal to the configured nickname
  (which is also the nickname it is built with).
\<close>

theorem realname_is_nickname:
  "IRCSensor_init cfg = Inr sensor \<Longrightarrow>
   nickname cfg = Some (realname (IRCSensor_setup sensor)) \<and>
   realname (IRCSensor_setup sensor) = bot_nickname (IRCSensor_setup sensor)"
  using init_fields [of cfg sensor] by (simp add: IRCSensor_setup_def Let_def)

theorem realname_is_nickname_witness:
  "IRCSensor_init example_config = Inr example_sensor \<and>
   nickname example_config = Some (realname (IRCSensor_setup example_sensor)) \<and>
   realname (IRCSensor_setup example_sensor) = ''bot1''"
  using realname_is_nickname [OF example_init] example_init
  by (simp add: example_config_def)

text \<open>
  C4 as stated: the timestamp is an integer no smaller than the time at which the
  adapter received the event. The clock is read after the event was received, so the
  reading is no earlier than the receipt; but \<^verbatim>\<open>int()\<close> cuts the fraction of the
  reading off. An event received half a second after 1700000000, with the clock read at
  that same instant, gets the timestamp 1700000000, which is smaller.
\<close>

theorem timestamp_before_receipt:
  "timestamp (fst (on_pubmsg (IRCSensor_setup example_sensor) (3400000001 / 2)
      (example_event ''pubmsg''))) = Some 1700000000 \<and>
   real_of_int 1700000000 < 3400000001 / 2"
  by (simp add: on_pubmsg_def Let_def int_of_float_def)

text \<open>
  C4, amended. Each of the four callbacks stores on the event the integer
  \<^verbatim>\<open>int(time.time())\<close>, the clock reading cut to whole seconds. For an event received at
  \<open>received\<close>, no later than the reading, the timestamp is at least the receipt time cut
  to whole seconds and more than the receipt time minus one second; for a reading since
  the epoch it is at most the reading.
\<close>

theorem timestamp_whole_seconds:
  "received \<le> time_time \<Longrightarrow>
   timestamp (fst (on_pubmsg self time_time event)) = Some (int_of_float time_time) \<and>
   timestamp (fst (on_privmsg self time_time event)) = Some (int_of_float time_time) \<and>
   timestamp (fst (on_join self time_time event)) = Some (int_of_float time_time) \<and>
   timestamp (fst (on_part self time_time event)) = Some (int_of_float time_time) \<and>
   \<lfloor>received\<rfloor> \<le> int_of_float time_time \<and>
   received - 1 < real_of_int (int_of_float time_time) \<and>
   (0 \<le> time_time \<longrightarrow> real_of_int (int_of_float time_time) \<le> time_time)"
proof -
  assume le: "received \<le> time_time"
  have floor_le: "\<lfloor>received\<rfloor> \<le> int_of_float time_time"
  proof (cases "0 \<le> time_time")
    case True
    then show ?thesis using le by (simp add: int_of_float_def floor_mono)
  next
    case False
    have "\<lfloor>received\<rfloor> \<le> \<lfloor>time_time\<rfloor>" using le by (rule floor_mono)
    also have "\<dots> \<le> \<lceil>time_time\<rceil>" by (rule floor_le_ceiling)
    finally show ?thesis using False by (simp add: int_of_float_def)
  qed
  have "received - 1 < real_of_int \<lfloor>received\<rfloor>" by linarith
  also have "\<dots> \<le> real_of_int (int_of_float time_time)" using floor_le by simp
  finally have close: "received - 1 < real_of_int (int_of_float time_time)" .
  have below: "0 \<le> time_time \<longrightarrow> real_of_int (int_of_float time_time) \<le> time_time"
    by (simp add: int_of_float_def)
  show ?thesis
    using floor_le close below
    by (simp add: on_pubmsg_def on_privmsg_def on_join_def on_part_def Let_def)
qed

theorem timestamp_whole_seconds_witness:
  "(3400000001 / 2 :: real) \<le> 3400000001 / 2 \<and>
   timestamp (fst (on_join (IRCSensor_setup example_sensor) (3400000001 / 2)
      (example_event ''join''))) = Some 1700000000 \<and>
   \<lfloor>3400000001 / 2 :: real\<rfloor> \<le> 1700000000"
  using timestamp_whole_seconds [of "3400000001 / 2" "3400000001 / 2"
      "IRCSensor_setup example_sensor" "example_event ''join''"]
  by (simp add: int_of_float_def)

text \<open>
  C6 as stated: over consecutive collisions, the nickname requested is never the string
  that was just rejected. The connection's nickname is the library's to change (a
  request for a new nickname does not change it, the server's confirmation does), the
  suffix is drawn anew each time, and the bot remembers no earlier request. While the
  connection reports
  \<^verbatim>\<open>bot1\<close>, two collisions with the same draw, 7, ask for \<^verbatim>\<open>bot1-7\<close> twice: the second
  request is the string the server has just rejected.
\<close>

theorem same_nickname_requested_twice:
  "randint 1 1000 6 = Inr 7 \<and>
   nick_requests (fst (run (IRCSensor_setup example_sensor)
      [(example_connection, 0, 6, example_event ''nicknameinuse''),
       (example_connection, 0, 6, example_event ''nicknameinuse'')])) =
     [''bot1-7'', ''bot1-7'']"
  by (simp add: dispatch_event_def example_event_def on_nicknameinuse_def randint_def
      new_nickname_def example_connection_def str_int_def digits.simps digit_char_def)

text \<open>
  C6, amended. At every collision the requested nickname is the connection's current
  nickname extended by a hyphen and the suffix drawn, so it is never the connection's
  current nickname; when the connection reports the nickname requested last, the new
  request differs from it. Two consecutive collisions under the same connection
  nickname request the same string exactly when the two draws are equal.
\<close>

theorem nickname_retry:
  "type e1 = ''nicknameinuse'' \<Longrightarrow> type e2 = ''nicknameinuse'' \<Longrightarrow>
   \<exists>d1 d2. randint 1 1000 r1 = Inr d1 \<and> randint 1 1000 r2 = Inr d2 \<and>
     nick_requests (fst (run self [(c1, t1, r1, e1), (c2, t2, r2, e2)])) =
       [new_nickname c1 d1, new_nickname c2 d2] \<and>
     new_nickname c1 d1 \<noteq> get_nickname c1 \<and>
     new_nickname c2 d2 \<noteq> get_nickname c2 \<and>
     (get_nickname c2 = new_nickname c1 d1 \<longrightarrow> new_nickname c2 d2 \<noteq> new_nickname c1 d1) \<and>
     (get_nickname c2 = get_nickname c1 \<longrightarrow>
        (new_nickname c2 d2 = new_nickname c1 d1 \<longleftrightarrow> d2 = d1))"
proof -
  assume kinds: "type e1 = ''nicknameinuse''" "type e2 = ''nicknameinuse''"
  obtain d1 where d1: "randint 1 1000 r1 = Inr d1" using randint_range [of r1] by blast
  obtain d2 where d2: "randint 1 1000 r2 = Inr d2" using randint_range [of r2] by blast
  have trace: "nick_requests (fst (run self [(c1, t1, r1, e1), (c2, t2, r2, e2)])) =
      [new_nickname c1 d1, new_nickname c2 d2]"
    using kinds d1 d2 by (simp add: dispatch_event_def on_nicknameinuse_def)
  have longer: "new_nickname c d \<noteq> get_nickname c" for c d
    by (simp add: new_nickname_def)
  have same: "get_nickname c2 = get_nickname c1 \<longrightarrow>
      (new_nickname c2 d2 = new_nickname c1 d1 \<longleftrightarrow> d2 = d1)"
    using str_int_inj [of d2 d1] by (auto simp: new_nickname_def)
  have "randint 1 1000 r1 = Inr d1 \<and> randint 1 1000 r2 = Inr d2 \<and>
     nick_requests (fst (run self [(c1, t1, r1, e1), (c2, t2, r2, e2)])) =
       [new_nickname c1 d1, new_nickname c2 d2] \<and>
     new_nickname c1 d1 \<noteq> get_nickname c1 \<and>
     new_nickname c2 d2 \<noteq> get_nickname c2 \<and>
     (get_nickname c2 = new_nickname c1 d1 \<longrightarrow> new_nickname c2 d2 \<noteq> new_nickname c1 d1) \<and>
     (get_nickname c2 = get_nickname c1 \<longrightarrow>
        (new_nickname c2 d2 = new_nickname c1 d1 \<longleftrightarrow> d2 = d1))"
    using d1 d2 trace longer [of c1 d1] longer [of c2 d2] same by auto
  then show ?thesis by blast
qed

theorem nickname_retry_witness:
  "type (example_event ''nicknameinuse'') = ''nicknameinuse'' \<and>
   (\<exists>d1 d2. randint 1 1000 6 = Inr d1 \<and> randint 1 1000 6 = Inr d2 \<and>
      nick_requests (fst (run (IRCSensor_setup example_sensor)
        [(example_connection, 0, 6, example_event ''nicknameinuse''),
         (\<lparr>get_nickname = ''bot1-7''\<rparr>, 0, 6, example_event ''nicknameinuse'')])) =
        [new_nickname example_connection d1, new_nickname \<lparr>get_nickname = ''bot1-7''\<rparr> d2] \<and>
      new_nickname \<lparr>get_nickname = ''bot1-7''\<rparr> d2 \<noteq> new_nickname example_connection d1) \<and>
   new_nickname example_connection 7 = ''bot1-7'' \<and>
   new_nickname \<lparr>get_nickname = ''bot1-7''\<rparr> 7 = ''bot1-7-7''"
proof -
  have kind: "type (example_event ''nicknameinuse'') = ''nicknameinuse''"
    by (simp add: example_event_def)
  have names: "new_nickname example_connection 7 = ''bot1-7''"
    "new_nickname \<lparr>get_nickname = ''bot1-7''\<rparr> 7 = ''bot1-7-7''"
    by (simp_all add: new_nickname_def example_connection_def str_int_def digits.simps
        digit_char_def)
  have draw: "randint 1 1000 6 = Inr 7" by (simp add: randint_def)
  obtain d1 d2 where d: "randint 1 1000 6 = Inr d1" "randint 1 1000 6 = Inr d2"
    and trace: "nick_requests (fst (run (IRCSensor_setup example_sensor)
        [(example_connection, 0, 6, example_event ''nicknameinuse''),
         (\<lparr>get_nickname = ''bot1-7''\<rparr>, 0, 6, example_event ''nicknameinuse'')])) =
        [new_nickname example_connection d1, new_nickname \<lparr>get_nickname = ''bot1-7''\<rparr> d2]"
    and differs: "get_nickname \<lparr>get_nickname = ''bot1-7''\<rparr> = new_nickname example_connection d1 \<longrightarrow>
        new_nickname \<lparr>get_nickname = ''bot1-7''\<rparr> d2 \<noteq> new_nickname example_connection d1"
    using nickname_retry [OF kind kind, of 6 6 "IRCSensor_setup example_sensor"
        example_connection 0 "\<lparr>get_nickname = ''bot1-7''\<rparr>" 0]
    by blast
  have "d1 = 7" using d(1) draw by simp
  then have "new_nickname \<lparr>get_nickname = ''bot1-7''\<rparr> d2 \<noteq> new_nickname example_connection d1"
    using differs names by simp
  then show ?thesis using kind d trace names by blast
qed

lemma run_append:
  "snd (run self xs) = Running \<Longrightarrow>
   run self (xs @ ys) = (fst (run self xs) @ fst (run self ys), snd (run self ys))"
proof (induction xs)
  case Nil
  then show ?case by simp
next
  case (Cons x xs)
  obtain connection time_time rng event where x: "x = (connection, time_time, rng, event)"
    by (cases x) auto
  show ?case
  proof (cases "dispatch_event self connection time_time rng event")
    case (Inl e)
    then show ?thesis using Cons.prems x by simp
  next
    case (Inr acts)
    show ?thesis
    proof (cases "Die \<in> set acts")
      case True
      then show ?thesis using Cons.prems x Inr by simp
    next
      case False
      then have "snd (run self xs) = Running"
        using Cons.prems x Inr by (simp split: prod.splits)
      then show ?thesis using Cons.IH x Inr False by (simp split: prod.splits)
    qed
  qed
qed

lemma joins_append: "joins (as @ bs) = joins as @ joins bs"
  by (induction as rule: joins.induct) simp_all

text \<open>
  C3 as stated: in both kinds of session, the reply 904 or a "SASL access only" error
  ends the session and no join follows. The unauthenticated bot has no callback for 904:
  a session of that bot which receives 904 and then the welcome event keeps running and
  joins its channel.
\<close>

theorem simple_bot_survives_904:
  "fatal_auth_error (example_event ''904'') \<and>
   bot_class (IRCSensor_setup example_sensor) = StackStormSensorSimpleBot \<and>
   run (IRCSensor_setup example_sensor)
     [(example_connection, 0, 1, example_event ''904''),
      (example_connection, 0, 1, example_event ''welcome'')] =
     ([LogDebug ''Connected to the server'', LogDebug ''Joining ##ops...'', Join ''#ops''],
      Running)"
  by (simp add: fatal_auth_error_def example_event_def IRCSensor_setup_def Let_def
      example_sensor_def truthy_def dispatch_event_def on_welcome_def)

text \<open>
  C3, amended. Each bot ends its session on the authentication failure of its own
  mode: the SASL bot on the reply 904, the unauthenticated bot on a server error whose
  text contains "SASL access only". The bot logs one error and dies; the session is
  terminated whatever follows, and its trace ends there: nothing is asked of the
  connection afterwards, so no channel is joined after the termination.
\<close>

theorem fatal_auth_error_terminates:
  "(bot_class self = StackStormSensorSaslBot \<and> type event = ''904'') \<or>
   (bot_class self = StackStormSensorSimpleBot \<and> type event = ''error'' \<and>
      py_in ''SASL access only'' (target event)) \<Longrightarrow>
   snd (run self before) = Running \<Longrightarrow>
   (\<exists>msg. run self (before @ (connection, time_time, rng, event) # after) =
            (fst (run self before) @ [LogError msg, Die], Terminated)) \<and>
   joins (fst (run self (before @ (connection, time_time, rng, event) # after))) =
     joins (fst (run self before))"
proof -
  assume fatal: "(bot_class self = StackStormSensorSaslBot \<and> type event = ''904'') \<or>
      (bot_class self = StackStormSensorSimpleBot \<and> type event = ''error'' \<and>
         py_in ''SASL access only'' (target event))"
    and running: "snd (run self before) = Running"
  from fatal obtain msg where
    dies: "dispatch_event self connection time_time rng event = Inr [LogError msg, Die]"
  proof
    assume "bot_class self = StackStormSensorSaslBot \<and> type event = ''904''"
    then have "dispatch_event self connection time_time rng event =
        Inr (on_sasl_failed event)"
      by (simp add: dispatch_event_def)
    then show ?thesis using that by (simp add: on_sasl_failed_def)
  next
    assume "bot_class self = StackStormSensorSimpleBot \<and> type event = ''error'' \<and>
        py_in ''SASL access only'' (target event)"
    then have "dispatch_event self connection time_time rng event = Inr (on_error event)"
      and "py_in ''SASL access only'' (target event)"
      by (simp_all add: dispatch_event_def)
    then show ?thesis using that by (simp add: on_error_def)
  qed
  have "run self ((connection, time_time, rng, event) # after) =
      ([LogError msg, Die], Terminated)"
    using dies by simp
  then have "run self (before @ (connection, time_time, rng, event) # after) =
      (fst (run self before) @ [LogError msg, Die], Terminated)"
    using run_append [OF running, of "(connection, time_time, rng, event) # after"]
    by simp
  then show ?thesis by (auto simp: joins_append)
qed

theorem fatal_auth_error_terminates_witness:
  "bot_class (IRCSensor_setup (example_sensor\<lparr>self_password := Some ''secret''\<rparr>)) =
     StackStormSensorSaslBot \<and>
   type (example_event ''904'') = ''904'' \<and>
   snd (run (IRCSensor_setup (example_sensor\<lparr>self_password := Some ''secret''\<rparr>)) []) =
     Running \<and>
   snd (run (IRCSensor_setup (example_sensor\<lparr>self_password := Some ''secret''\<rparr>))
     [(example_connection, 0, 1, example_event ''904''),
      (example_connection, 0, 1, example_event ''welcome'')]) = Terminated \<and>
   joins (fst (run (IRCSensor_setup (example_sensor\<lparr>self_password := Some ''secret''\<rparr>))
     [(example_connection, 0, 1, example_event ''904''),
      (example_connection, 0, 1, example_event ''welcome'')])) = []"
proof -
  have sasl: "bot_class (IRCSensor_setup (example_sensor\<lparr>self_password := Some ''secret''\<rparr>)) =
      StackStormSensorSaslBot"
    by (simp add: IRCSensor_setup_def Let_def truthy_def example_sensor_def)
  have kind: "type (example_event ''904'') = ''904''"
    by (simp add: example_event_def)
  have running:
    "snd (run (IRCSensor_setup (example_sensor\<lparr>self_password := Some ''secret''\<rparr>)) []) = Running"
    by simp
  from sasl kind have fatal:
    "(bot_class (IRCSensor_setup (example_sensor\<lparr>self_password := Some ''secret''\<rparr>)) =
        StackStormSensorSaslBot \<and> type (example_event ''904'') = ''904'') \<or>
     (bot_class (IRCSensor_setup (example_sensor\<lparr>self_password := Some ''secret''\<rparr>)) =
        StackStormSensorSimpleBot \<and> type (example_event ''904'') = ''error'' \<and>
        py_in ''SASL access only'' (target (example_event ''904'')))"
    by simp
  show ?thesis
    using fatal_auth_error_terminates [OF fatal running, of example_connection 0 1
        "[(example_connection, 0, 1, example_event ''welcome'')]"] sasl kind
    by auto
qed

lemma py_split_first:
  "py_split sep s =
     takeWhile (\<lambda>c. c \<noteq> sep) s #
       (if sep \<in> set s then py_split sep (tl (dropWhile (\<lambda>c. c \<noteq> sep) s)) else [])"
  by (induction s) auto

lemma split_server:
  "getitem (py_split CHR '':'' srv) 0 = Inr (takeWhile (\<lambda>c. c \<noteq> CHR '':'') srv)"
  "getitem (py_split CHR '':'' srv) (Suc 0) =
     (if CHR '':'' \<in> set srv then Inr (port_text srv) else Inl IndexError)"
proof -
  show "getitem (py_split CHR '':'' srv) 0 = Inr (takeWhile (\<lambda>c. c \<noteq> CHR '':'') srv)"
    by (subst py_split_first) (simp add: getitem_def)
  show "getitem (py_split CHR '':'' srv) (Suc 0) =
     (if CHR '':'' \<in> set srv then Inr (port_text srv) else Inl IndexError)"
  proof (cases "CHR '':'' \<in> set srv")
    case True
    have "py_split CHR '':'' srv =
        takeWhile (\<lambda>c. c \<noteq> CHR '':'') srv #
          py_split CHR '':'' (tl (dropWhile (\<lambda>c. c \<noteq> CHR '':'') srv))"
      using True by (subst py_split_first) simp
    moreover have "py_split CHR '':'' (tl (dropWhile (\<lambda>c. c \<noteq> CHR '':'') srv)) =
        port_text srv #
          (if CHR '':'' \<in> set (tl (dropWhile (\<lambda>c. c \<noteq> CHR '':'') srv))
           then py_split CHR '':''
                  (tl (dropWhile (\<lambda>c. c \<noteq> CHR '':'') (tl (dropWhile (\<lambda>c. c \<noteq> CHR '':'') srv))))
           else [])"
      unfolding port_text_def by (rule py_split_first)
    ultimately show ?thesis using True by (simp add: getitem_def)
  next
    case False
    then show ?thesis by (subst py_split_first) (simp add: getitem_def)
  qed
qed

text \<open>
  How far the specification's reading of a malformed server string goes: with at most
  one colon in the string, a string that is not of the form host:port makes the
  construction raise.
\<close>

lemma single_colon_malformed_raises:
  assumes srv: "server cfg = Some srv"
    and one: "length (filter (\<lambda>c. c = CHR '':'') srv) \<le> 1"
    and malformed: "\<not> host_port_form srv"
  shows "\<exists>e. IRCSensor_init cfg = Inl e"
proof (cases "CHR '':'' \<in> set srv")
  case False
  then show ?thesis using srv by (simp add: IRCSensor_init_def Let_def split_server)
next
  case True
  let ?P = "\<lambda>c. c \<noteq> CHR '':''"
  let ?i = "length (takeWhile ?P srv)"
  have "x \<in> set xs \<Longrightarrow> \<not> ?P x \<Longrightarrow> length (takeWhile ?P xs) < length xs" for x xs
    by (induction xs) auto
  from this [of "CHR '':''" srv] have i: "?i < length srv" using True by simp
  have at: "srv ! ?i = CHR '':''" using i nth_length_takeWhile [of ?P srv] by simp
  have dw: "dropWhile ?P srv = drop ?i srv" by (rule dropWhile_eq_drop)
  then have rest: "tl (dropWhile ?P srv) = drop (Suc ?i) srv" by (simp add: drop_Suc tl_drop)
  have "dropWhile ?P srv = srv ! ?i # drop (Suc ?i) srv"
    unfolding dw using Cons_nth_drop_Suc [OF i] by (rule sym)
  then have "dropWhile ?P srv = CHR '':'' # drop (Suc ?i) srv"
    by (simp only: at)
  then have "srv = takeWhile ?P srv @ CHR '':'' # drop (Suc ?i) srv"
    using takeWhile_dropWhile_id [of ?P srv] by simp
  then have "filter (\<lambda>c. c = CHR '':'') srv =
      filter (\<lambda>c. c = CHR '':'') (takeWhile ?P srv @ CHR '':'' # drop (Suc ?i) srv)"
    by (rule arg_cong)
  then have "length (filter (\<lambda>c. c = CHR '':'') srv) =
      length (filter (\<lambda>c. c = CHR '':'') (takeWhile ?P srv)) + 1 +
      length (filter (\<lambda>c. c = CHR '':'') (drop (Suc ?i) srv))"
    by simp
  then have "length (filter (\<lambda>c. c = CHR '':'') (drop (Suc ?i) srv)) = 0"
    using one by linarith
  then have "\<forall>c \<in> set (drop (Suc ?i) srv). ?P c"
    by (simp only: length_0_conv filter_empty_conv)
  then have "takeWhile ?P (drop (Suc ?i) srv) = drop (Suc ?i) srv"
    by (simp only: takeWhile_eq_all_conv)
  then have port: "port_text srv = drop (Suc ?i) srv"
    by (simp only: port_text_def rest)
  have "?i \<in> set [0..<length srv]" using i by simp
  then have "\<not> port_after srv ?i"
    using malformed unfolding host_port_form_def list_ex_iff by blast
  then have "isl (py_int (drop (Suc ?i) srv))"
    unfolding port_after_def using at by blast
  then have "isl (py_int (port_text srv))"
    by (simp only: port)
  then obtain e where "py_int (port_text srv) = Inl e"
    by (cases "py_int (port_text srv)") simp_all
  then show ?thesis
    using srv True by (simp add: IRCSensor_init_def Let_def split_server)
qed

text \<open>
  C9 as stated: a configuration whose server string is not of the form host:port with
  an integer port makes the construction fail. The constructor looks at the first two
  pieces between colons and at nothing behind them: \<^verbatim>\<open>irc.example.org:6697:x\<close> has no
  colon followed by an integer up to its end, and yet the sensor is built from it, with
  host \<^verbatim>\<open>irc.example.org\<close> and port 6697.
\<close>

theorem extra_colon_accepted:
  "\<not> host_port_form ''irc.example.org:6697:x'' \<and>
   IRCSensor_init (example_config\<lparr>server := Some ''irc.example.org:6697:x''\<rparr>) =
     Inr example_sensor"
proof -
  have "[0..<length ''irc.example.org:6697:x''] =
      [0, 1, 2, 3, 4, 5, 6, 7, 8, 9, 10, 11, 12, 13, 14, 15, 16, 17, 18, 19, 20, 21]"
    by (simp add: upt_rec)
  then have "\<not> host_port_form ''irc.example.org:6697:x''"
    by (simp add: host_port_form_def port_after_def py_int_def strip_def is_space_def
        parse_unsigned_def is_digit_def digit_val_def)
  moreover have "IRCSensor_init (example_config\<lparr>server := Some ''irc.example.org:6697:x''\<rparr>) =
      Inr example_sensor"
    by (simp add: IRCSensor_init_def example_config_def example_sensor_def getitem_def
        py_int_def strip_def is_space_def parse_unsigned_def max_str_digits_def is_digit_def
      digit_val_def)
  ultimately show ?thesis by simp
qed

text \<open>
  C9, amended. The construction raises, before any bot exists and with no network
  I/O, exactly when the server key is missing, the server string has no colon, the text
  between its first colon and the next one (or the end) is not an integer for
  \<^verbatim>\<open>int()\<close> (blanks around, one sign, digits with single underscores between them, at
  most 4300 digits), or the nickname or the channels key is missing. Otherwise the
  sensor is built with the text before the first colon as host and that integer as
  port; whatever follows a second colon is ignored.
\<close>

theorem init_raises_iff:
  "((\<exists>e. IRCSensor_init cfg = Inl e) \<longleftrightarrow>
      server cfg = None \<or>
      (\<exists>srv. server cfg = Some srv \<and>
         (CHR '':'' \<notin> set srv \<or> (\<exists>e. py_int (port_text srv) = Inl e))) \<or>
      nickname cfg = None \<or> channels cfg = None) \<and>
   (\<forall>sensor. IRCSensor_init cfg = Inr sensor \<longrightarrow>
      (\<exists>srv. server cfg = Some srv \<and>
         self_server_host sensor = takeWhile (\<lambda>c. c \<noteq> CHR '':'') srv \<and>
         py_int (port_text srv) = Inr (self_server_port sensor)))"
proof (cases "server cfg")
  case None
  then show ?thesis by (simp add: IRCSensor_init_def)
next
  case (Some srv)
  show ?thesis
  proof (cases "CHR '':'' \<in> set srv")
    case False
    then show ?thesis using Some by (simp add: IRCSensor_init_def Let_def split_server)
  next
    case True
    show ?thesis
    proof (cases "py_int (port_text srv)")
      case (Inl e)
      then show ?thesis using Some True by (simp add: IRCSensor_init_def Let_def split_server)
    next
      case (Inr port)
      then show ?thesis
        using Some True
        by (cases "nickname cfg"; cases "channels cfg")
           (simp_all add: IRCSensor_init_def Let_def split_server)
    qed
  qed
qed

theorem init_raises_iff_witness:
  "IRCSensor_init (example_config\<lparr>server := Some ''irc.example.org''\<rparr>) = Inl IndexError \<and>
   IRCSensor_init (example_config\<lparr>server := Some ''irc.example.org:ircs''\<rparr>) = Inl ValueError \<and>
   IRCSensor_init (example_config\<lparr>nickname := None\<rparr>) = Inl (KeyError ''nickname'') \<and>
   IRCSensor_init (example_config\<lparr>channels := None\<rparr>) = Inl (KeyError ''channels'') \<and>
   IRCSensor_init example_config = Inr example_sensor \<and>
   self_server_host example_sensor = ''irc.example.org'' \<and>
   py_int (port_text ''irc.example.org:6697'') = Inr (self_server_port example_sensor)"
proof -
  have evaluated:
    "IRCSensor_init (example_config\<lparr>server := Some ''irc.example.org''\<rparr>) = Inl IndexError"
    "IRCSensor_init (example_config\<lparr>server := Some ''irc.example.org:ircs''\<rparr>) = Inl ValueError"
    "IRCSensor_init (example_config\<lparr>nickname := None\<rparr>) = Inl (KeyError ''nickname'')"
    "IRCSensor_init (example_config\<lparr>channels := None\<rparr>) = Inl (KeyError ''channels'')"
    by (simp_all add: IRCSensor_init_def example_config_def getitem_def
        py_int_def strip_def is_space_def parse_unsigned_def max_str_digits_def is_digit_def
      digit_val_def)
  have "\<exists>srv. server example_config = Some srv \<and>
      self_server_host example_sensor = takeWhile (\<lambda>c. c \<noteq> CHR '':'') srv \<and>
      py_int (port_text srv) = Inr (self_server_port example_sensor)"
    using init_raises_iff [of example_config] example_init by blast
  then show ?thesis
    using evaluated example_init by (simp add: example_config_def example_sensor_def)
qed

end

